theory Spec2Isabelle
  imports Complex_Main
begin

section \<open>Values as \<open>json.loads\<close> returns them\<close>

text \<open>
  The listener and the dashboard of \<open>well_data_dashboard.py\<close> work on the Python values
  that \<open>json.loads\<close> and \<open>json.load\<close> return: \<open>None\<close>, booleans, numbers, strings,
  lists and dictionaries. A dictionary is kept as its items in insertion order (the keys
  of a parsed object are distinct). A float is finite, kept as the rational it denotes, or
  one of the three values that \<open>json.loads\<close> makes of the literals \<open>NaN\<close>, \<open>Infinity\<close>
  and \<open>-Infinity\<close>; the code never looks into a number except to test it for zero.
  A \<open>str\<close> is the list of its characters and a \<open>bytes\<close> value the list of its bytes;
  both are lists of \<open>char\<close>, which covers the code points up to U+00FF. The code
  never looks at a single character.
\<close>

type_synonym bytes = "char list"

datatype pyfloat = Finite rat | NaN | Infinity | NegInfinity

datatype json =
    JNull
  | JBool bool
  | JInt int
  | JFloat pyfloat
  | JStr string
  | JArr "json list"
  | JObj "(string \<times> json) list"

text \<open>The exceptions that the modelled lines can raise.\<close>

datatype error =
    JSONDecodeError
  | TypeError
  | AttributeError
  | FileNotFoundError
  | OSError
  | UnicodeDecodeError
  | ConnectionError

fun is_list :: "json \<Rightarrow> bool" where
  "is_list (JArr xs) = True"
| "is_list v = False"

fun is_dict :: "json \<Rightarrow> bool" where
  "is_dict (JObj kvs) = True"
| "is_dict v = False"

text \<open>\<open>len(v)\<close>: defined on strings, lists and dictionaries, a \<open>TypeError\<close> elsewhere.\<close>

fun py_len :: "json \<Rightarrow> error + nat" where
  "py_len (JStr s) = Inr (length s)"
| "py_len (JArr xs) = Inr (length xs)"
| "py_len (JObj kvs) = Inr (length kvs)"
| "py_len v = Inl TypeError"

text \<open>
  Iterating over a value (\<open>for record in v\<close>, and the unpacking \<open>*v\<close> inside a list
  display): a list gives its elements, a string its characters as one-character strings,
  a dictionary its keys; any other value raises \<open>TypeError\<close>.
\<close>

fun py_iter :: "json \<Rightarrow> error + json list" where
  "py_iter (JArr xs) = Inr xs"
| "py_iter (JStr s) = Inr (map (\<lambda>c. JStr [c]) s)"
| "py_iter (JObj kvs) = Inr (map (\<lambda>kv. JStr (fst kv)) kvs)"
| "py_iter v = Inl TypeError"

text \<open>Truth value of a Python value, as the filter of a generator tests it.\<close>

fun truthy :: "json \<Rightarrow> bool" where
  "truthy JNull = False"
| "truthy (JBool b) = b"
| "truthy (JInt i) = (i \<noteq> 0)"
| "truthy (JFloat x) = (x \<noteq> Finite 0)"
| "truthy (JStr s) = (s \<noteq> [])"
| "truthy (JArr xs) = (xs \<noteq> [])"
| "truthy (JObj kvs) = (kvs \<noteq> [])"

text \<open>
  \<open>record.get(key)\<close>: only a dictionary has the method; the default is \<open>None\<close>. On a
  list, a string or a number the attribute lookup raises \<open>AttributeError\<close>.
\<close>

fun record_get :: "json \<Rightarrow> string \<Rightarrow> error + json" where
  "record_get (JObj kvs) key =
     Inr (case map_of kvs key of None \<Rightarrow> JNull | Some v \<Rightarrow> v)"
| "record_get v key = Inl AttributeError"

section \<open>The history file\<close>

text \<open>
  \<open>oil_well_history.json\<close> is the only persisted state. It is absent, or holds a
  complete JSON document, or holds a proper prefix of one: \<open>open(history_file, "w")\<close>
  truncates the file before \<open>json.dump\<close> writes into it, so a write that fails after the
  file was opened leaves a text that \<open>json.load\<close> rejects.
\<close>

datatype history_file =
    NoFile
  | FileJson json
  | FilePartial

text \<open>
  What the operating system does to a write is an input of the model: the write goes
  through, or \<open>open\<close> raises (permission denied), or \<open>open\<close> succeeds and the writing
  raises before the document is complete (disk full).
\<close>

datatype write_fault = WriteOk | OpenFails | WriteFails

text \<open>
  \<open>with open(history_file, "w") as f: json.dump(v, f)\<close>
  (lines 28-29, 84-85 and 109-110). The result is the exception raised, if any, and the
  file afterwards.
\<close>

fun dump_history :: "write_fault \<Rightarrow> json \<Rightarrow> history_file \<Rightarrow> (error + unit) \<times> history_file" where
  "dump_history WriteOk v file = (Inr (), FileJson v)"
| "dump_history OpenFails v file = (Inl OSError, file)"
| "dump_history WriteFails v file = (Inl OSError, FilePartial)"

text \<open>Lines 27-29: at start-up an absent file is created holding \<open>[]\<close>.\<close>

definition create_history :: "write_fault \<Rightarrow> history_file \<Rightarrow> (error + unit) \<times> history_file" where
  "create_history io file =
     (if file = NoFile then dump_history io (JArr []) file else (Inr (), file))"

section \<open>The listener: decoding and merging one connection\<close>

text \<open>
  Lines 56-61, the shape of the payload:
  \<^verbatim>\<open>
  if isinstance(data, dict) and "well_data" in data:
      new_data = data["well_data"]
  elif isinstance(data, list):
      new_data = data
  else:
      new_data = [data]
  \<close>
\<close>

fun new_data_of :: "json \<Rightarrow> json" where
  "new_data_of (JObj kvs) =
     (case map_of kvs ''well_data'' of
        Some v \<Rightarrow> v
      | None \<Rightarrow> JArr [JObj kvs])"
| "new_data_of (JArr xs) = JArr xs"
| "new_data_of v = JArr [v]"

text \<open>
  Line 66: \<open>sum(1 for record in new_data if record.get("forecast"))\<close>, over the elements
  already taken out of \<open>new_data\<close>. The first element without a \<open>get\<close> method ends the
  sum with \<open>AttributeError\<close>.
\<close>

fun forecast_count :: "json list \<Rightarrow> error + nat" where
  "forecast_count [] = Inr 0"
| "forecast_count (record # rest) =
     (case record_get record ''forecast'' of
        Inl e \<Rightarrow> Inl e
      | Inr v \<Rightarrow>
          (case forecast_count rest of
             Inl e \<Rightarrow> Inl e
           | Inr n \<Rightarrow> Inr (if truthy v then Suc n else n)))"

text \<open>
  Lines 70-75: the history is read from the file when the file exists, and is \<open>[]\<close>
  otherwise. \<open>json.load\<close> raises \<open>JSONDecodeError\<close> on a partial document.
\<close>

fun load_history :: "history_file \<Rightarrow> error + json" where
  "load_history NoFile = Inr (JArr [])"
| "load_history (FileJson v) = Inr v"
| "load_history FilePartial = Inl JSONDecodeError"

text \<open>
  Lines 70-81, the first half of the merge, up to the value of the local variable
  \<open>history\<close> that line 85 will write: \<open>history = [*new_data, *history]\<close> then
  \<open>history = history[:1000]\<close>. The file is only read.
\<close>

definition merge_read :: "json \<Rightarrow> history_file \<Rightarrow> error + json list" where
  "merge_read new_data file =
     (case load_history file of
        Inl e \<Rightarrow> Inl e
      | Inr history \<Rightarrow>
          (case py_iter new_data of
             Inl e \<Rightarrow> Inl e
           | Inr new_items \<Rightarrow>
               (case py_iter history of
                  Inl e \<Rightarrow> Inl e
                | Inr old_items \<Rightarrow> Inr (take 1000 (new_items @ old_items)))))"

text \<open>Lines 84-85, the second half: the local \<open>history\<close> is written to the file.\<close>

definition merge_write :: "write_fault \<Rightarrow> json list \<Rightarrow> history_file \<Rightarrow> (error + unit) \<times> history_file" where
  "merge_write io history file = dump_history io (JArr history) file"

text \<open>Lines 70-85 run without interruption: load, prepend, truncate, save.\<close>

definition merge :: "write_fault \<Rightarrow> json \<Rightarrow> history_file \<Rightarrow> (error + unit) \<times> history_file" where
  "merge io new_data file =
     (case merge_read new_data file of
        Inl e \<Rightarrow> (Inl e, file)
      | Inr history \<Rightarrow> merge_write io history file)"

text \<open>
  What the listener prints. The two \<open>except\<close> clauses of lines 87-90 are the only
  report of a failure: \<open>JSONDecodeError\<close> is caught by the inner one, every other
  exception by the outer one.
\<close>

datatype event =
    Received nat
  | Forecasts nat
  | DecodeFailed
  | ReceiveFailed error

fun report :: "error \<Rightarrow> event" where
  "report JSONDecodeError = DecodeFailed"
| "report e = ReceiveFailed e"

text \<open>Lines 55-85 on the parsed payload \<open>data\<close>: what is printed, and the file afterwards.\<close>

definition store_data :: "write_fault \<Rightarrow> json \<Rightarrow> history_file \<Rightarrow> event list \<times> history_file" where
  "store_data io data file =
     (let new_data = new_data_of data in
      case py_len new_data of
        Inl e \<Rightarrow> ([report e], file)
      | Inr n \<Rightarrow>
          (case py_iter new_data of
             Inl e \<Rightarrow> ([Received n, report e], file)
           | Inr records \<Rightarrow>
               (case forecast_count records of
                  Inl e \<Rightarrow> ([Received n, report e], file)
                | Inr k \<Rightarrow>
                    (let printed = Received n # (if 0 < k then [Forecasts k] else []) in
                     case merge io new_data file of
                       (Inl e, file') \<Rightarrow> (printed @ [report e], file')
                     | (Inr u, file') \<Rightarrow> (printed, file')))))"

text \<open>
  Lines 51-88 on the text received from one connection. \<open>json.loads\<close> is a parameter:
  \<open>None\<close> stands for its \<open>JSONDecodeError\<close>. An empty buffer is skipped silently.
\<close>

definition handle_buffer ::
  "(string \<Rightarrow> json option) \<Rightarrow> write_fault \<Rightarrow> string \<Rightarrow> history_file \<Rightarrow> event list \<times> history_file" where
  "handle_buffer loads io buffer file =
     (if buffer = [] then ([], file)
      else case loads buffer of
             None \<Rightarrow> ([DecodeFailed], file)
           | Some data \<Rightarrow> store_data io data file)"

text \<open>
  Lines 44-49, the receive loop of one connection:
  \<^verbatim>\<open>
  buffer = ""
  while True:
      chunk = conn.recv(8192).decode()
      if not chunk:
          break
      buffer += chunk
  \<close>
  A connection is given by what its successive \<open>recv\<close> calls do until the peer has
  closed: each call returns some bytes, as the transport happens to cut them, or raises;
  after the last element of the list \<open>recv\<close> returns \<open>b""\<close>, which ends the loop. Each
  chunk is decoded on its own; \<open>bytes.decode\<close> is a parameter, \<open>None\<close> standing for its
  \<open>UnicodeDecodeError\<close>.
\<close>

datatype recv = Data bytes | RecvError

fun recv_loop :: "(bytes \<Rightarrow> string option) \<Rightarrow> string \<Rightarrow> recv list \<Rightarrow> error + string" where
  "recv_loop decode buffer [] = Inr buffer"
| "recv_loop decode buffer (RecvError # rest) = Inl ConnectionError"
| "recv_loop decode buffer (Data bs # rest) =
     (case decode bs of
        None \<Rightarrow> Inl UnicodeDecodeError
      | Some chunk \<Rightarrow>
          if chunk = [] then Inr buffer else recv_loop decode (buffer @ chunk) rest)"

text \<open>
  Lines 43-90, one accepted connection: an exception of the receive loop reaches the
  outer \<open>except\<close> of line 89, which prints it; otherwise the buffer is handled as above.
\<close>

definition handle_connection ::
  "(bytes \<Rightarrow> string option) \<Rightarrow> (string \<Rightarrow> json option) \<Rightarrow> write_fault \<Rightarrow> recv list \<Rightarrow>
   history_file \<Rightarrow> event list \<times> history_file" where
  "handle_connection decode loads io conn file =
     (case recv_loop decode [] conn of
        Inl e \<Rightarrow> ([report e], file)
      | Inr buffer \<Rightarrow> handle_buffer loads io buffer file)"

text \<open>
  Lines 40-42: the accept loop takes one connection at a time and finishes it before the
  next \<open>accept\<close>; connections that arrive together wait in the backlog of the socket and
  are served in the order in which \<open>accept\<close> returns them. A run of the loop over the
  connections accepted so far, each given by what it received and by what its write
  meets.
\<close>

fun dashboard_listener ::
  "(bytes \<Rightarrow> string option) \<Rightarrow> (string \<Rightarrow> json option) \<Rightarrow> (recv list \<times> write_fault) list \<Rightarrow>
   history_file \<Rightarrow> event list \<times> history_file" where
  "dashboard_listener decode loads [] file = ([], file)"
| "dashboard_listener decode loads (conn # conns) file =
     (case handle_connection decode loads (snd conn) (fst conn) file of
        (printed, file') \<Rightarrow>
          (case dashboard_listener decode loads conns file' of
             (printed', file'') \<Rightarrow> (printed @ printed', file'')))"

text \<open>
  A sequence of merges, one per batch and each written successfully, as the accept loop
  performs them one after the other.
\<close>

fun merge_all :: "json list list \<Rightarrow> history_file \<Rightarrow> history_file" where
  "merge_all [] file = file"
| "merge_all (batch # batches) file = merge_all batches (snd (merge WriteOk (JArr batch) file))"

section \<open>The dashboard: reset and read\<close>

text \<open>Lines 108-110, the Reset Data button: \<open>json.dump([], f)\<close> into the history file.\<close>

definition reset :: "write_fault \<Rightarrow> history_file \<Rightarrow> (error + unit) \<times> history_file" where
  "reset io file = dump_history io (JArr []) file"

text \<open>
  Lines 182-187, the loop that builds \<open>flattened_data\<close>; the first argument is the list
  built so far.
\<close>

fun flattened_data :: "json list \<Rightarrow> json list \<Rightarrow> json list" where
  "flattened_data acc [] = acc"
| "flattened_data acc (JArr xs # entries) = flattened_data (acc @ xs) entries"
| "flattened_data acc (entry # entries) = flattened_data (acc @ [entry]) entries"

text \<open>
  Lines 177-187: the dashboard opens the file for reading, parses it and flattens the
  entries. Nothing is written: the file after the read is the file before it. Whether
  the script reaches these lines is decided by the session flags tested at line 176,
  which belong to the control surface and are not part of the read.
\<close>

definition snapshot :: "history_file \<Rightarrow> (error + json list) \<times> history_file" where
  "snapshot file =
     (case file of
        NoFile \<Rightarrow> (Inl FileNotFoundError, file)
      | FilePartial \<Rightarrow> (Inl JSONDecodeError, file)
      | FileJson data \<Rightarrow>
          (case py_iter data of
             Inl e \<Rightarrow> (Inl e, file)
           | Inr entries \<Rightarrow> (Inr (flattened_data [] entries), file)))"

text \<open>
  The spec's wording of the flattening: every entry that is a sequence is replaced by its
  members, in place; every other entry stays.
\<close>

definition splice_one_level :: "json list \<Rightarrow> json list" where
  "splice_one_level entries =
     concat (map (\<lambda>entry. case entry of JArr xs \<Rightarrow> xs | _ \<Rightarrow> [entry]) entries)"

text \<open>
  The test of line 56, \<open>isinstance(data, dict) and "well_data" in data\<close>, on its own.
\<close>

fun has_well_data :: "json \<Rightarrow> bool" where
  "has_well_data (JObj kvs) = (map_of kvs ''well_data'' \<noteq> None)"
| "has_well_data v = False"

section \<open>The listener thread and the dashboard script side by side\<close>

text \<open>
  The listener runs in a thread of its own (line 94) while the dashboard script handles
  the buttons; no lock guards the file. A merge touches the file twice, reading it at
  lines 72-73 and writing it at lines 84-85, and the reset of lines 109-110 may fall
  between the two. A schedule lists the file accesses in the order in which they happen;
  \<open>pending\<close> is the listener's local variable \<open>history\<close> between its read and its write.
\<close>

record system =
  disk :: history_file
  pending :: "json list option"

datatype action =
    MergeRead json
  | MergeWrite write_fault
  | Reset write_fault

fun step :: "action \<Rightarrow> system \<Rightarrow> system" where
  "step (MergeRead new_data) s =
     (case merge_read new_data (disk s) of
        Inl e \<Rightarrow> s\<lparr>pending := None\<rparr>
      | Inr history \<Rightarrow> s\<lparr>pending := Some history\<rparr>)"
| "step (MergeWrite io) s =
     (case pending s of
        None \<Rightarrow> s
      | Some history \<Rightarrow> s\<lparr>disk := snd (merge_write io history (disk s)), pending := None\<rparr>)"
| "step (Reset io) s = s\<lparr>disk := snd (reset io (disk s))\<rparr>"

fun run :: "action list \<Rightarrow> system \<Rightarrow> system" where
  "run [] s = s"
| "run (a # as) s = run as (step a s)"

section \<open>The merge: capacity and order\<close>

lemma take_append_take: "take n (xs @ take n ys) = take n (xs @ ys)"
  by simp

lemma merge_on_lists:
  "merge WriteOk (JArr new) (FileJson (JArr h)) = (Inr (), FileJson (JArr (take 1000 (new @ h))))"
  by (simp add: merge_def merge_read_def merge_write_def)

lemma merge_on_no_file:
  "merge WriteOk (JArr new) NoFile = (Inr (), FileJson (JArr (take 1000 new)))"
  by (simp add: merge_def merge_read_def merge_write_def)

lemma merge_all_lists:
  "length h \<le> 1000 \<Longrightarrow> merge_all batches (FileJson (JArr h)) =
     FileJson (JArr (take 1000 (concat (rev batches) @ h)))"
proof (induction batches arbitrary: h)
  case Nil
  then show ?case by simp
next
  case (Cons b bs)
  have "merge_all (b # bs) (FileJson (JArr h)) = merge_all bs (FileJson (JArr (take 1000 (b @ h))))"
    by (simp add: merge_on_lists)
  also have "\<dots> = FileJson (JArr (take 1000 (concat (rev bs) @ take 1000 (b @ h))))"
    by (rule Cons.IH) simp
  also have "take 1000 (concat (rev bs) @ take 1000 (b @ h)) = take 1000 (concat (rev bs) @ b @ h)"
    by (rule take_append_take)
  finally show ?case by simp
qed

lemma length_concat_rev: "length (concat (rev xss)) = sum_list (map length xss)"
  by (induction xss) auto

text \<open>
  Claim C1. Start from the empty history and merge any sequence of batches. The stored
  history is then the batches laid out newest batch first, each batch in its own order,
  cut to its first 1000 entries; its length is the smaller of 1000 and the number of
  records merged so far; and one more merge keeps the head of the new batch followed by
  the stored history, so only entries at the tail are evicted.
\<close>

theorem capacity_invariant:
  "merge_all batches (FileJson (JArr [])) = FileJson (JArr (take 1000 (concat (rev batches))))
   \<and> length (take 1000 (concat (rev batches))) = min (sum_list (map length batches)) 1000
   \<and> merge_all (batches @ [batch]) (FileJson (JArr [])) =
       FileJson (JArr (take 1000 (batch @ take 1000 (concat (rev batches)))))"
proof (intro conjI)
  show "merge_all batches (FileJson (JArr [])) = FileJson (JArr (take 1000 (concat (rev batches))))"
    using merge_all_lists [where batches = batches and h = "[]"] by simp
  show "length (take 1000 (concat (rev batches))) = min (sum_list (map length batches)) 1000"
    by (simp only: length_take length_concat_rev min.commute)
  show "merge_all (batches @ [batch]) (FileJson (JArr [])) =
       FileJson (JArr (take 1000 (batch @ take 1000 (concat (rev batches)))))"
    using merge_all_lists [where batches = "batches @ [batch]" and h = "[]"]
    by (simp add: take_append_take)
qed

text \<open>
  Claim C2. A merge of the batch \<open>newRecords\<close> into the stored history \<open>h\<close> reads \<open>h\<close>
  (the empty history when the file is absent), puts the batch in front of it in the
  batch's own order, keeps the first 1000 entries and writes them back. When \<open>h\<close> holds
  1000 entries and the batch is the single record \<open>r\<close>, the result is \<open>r\<close> followed by
  \<open>h\<close> without its last entry: \<open>r\<close> is at position 0 and entry \<open>i\<close> of \<open>h\<close> is at
  position \<open>i + 1\<close>.
\<close>

theorem merge_prepends_truncates:
  "merge WriteOk (JArr newRecords) (FileJson (JArr h)) =
     (Inr (), FileJson (JArr (take 1000 (newRecords @ h))))
   \<and> merge WriteOk (JArr newRecords) NoFile = (Inr (), FileJson (JArr (take 1000 newRecords)))
   \<and> (length h = 1000 \<longrightarrow>
        merge WriteOk (JArr [r]) (FileJson (JArr h)) = (Inr (), FileJson (JArr (r # butlast h)))
        \<and> length (r # butlast h) = 1000
        \<and> (r # butlast h) ! 0 = r
        \<and> (\<forall>i < 999. (r # butlast h) ! Suc i = h ! i))"
  by (simp add: merge_on_lists merge_on_no_file butlast_conv_take)

theorem merge_prepends_truncates_witness:
  "length (replicate 1000 (JObj [(''client'', JStr ''W1'')])) = 1000
   \<and> merge WriteOk (JArr [JObj [(''client'', JStr ''W2'')]])
        (FileJson (JArr (replicate 1000 (JObj [(''client'', JStr ''W1'')])))) =
      (Inr (), FileJson (JArr (JObj [(''client'', JStr ''W2'')] #
         butlast (replicate 1000 (JObj [(''client'', JStr ''W1'')])))))"
  using merge_prepends_truncates
    [of "[]" "replicate 1000 (JObj [(''client'', JStr ''W1'')])" "JObj [(''client'', JStr ''W2'')]"]
  by simp

section \<open>Shape resolution and flattening\<close>

lemma store_data_depends_on_new_data:
  "new_data_of d = new_data_of d' \<Longrightarrow> store_data io d file = store_data io d' file"
  by (simp add: store_data_def)

lemma flattened_data_splice: "flattened_data acc entries = acc @ splice_one_level entries"
proof (induction acc entries rule: flattened_data.induct)
  case (1 acc)
  show ?case by (simp add: splice_one_level_def)
next
  case (2 acc xs entries)
  then show ?case by (simp add: splice_one_level_def)
qed (simp_all add: splice_one_level_def)

text \<open>
  Claim C3, as the code has it. Shape resolution does not flatten: the elements of the
  resolved list are kept as they are, nested sequences included, so the object
  \<open>{"well_data": xs}\<close> and the bare array \<open>xs\<close> resolve to the same list \<open>xs\<close> and are
  handled alike. A sequence nested in a batch is spliced only when the history is read:
  the stored entries \<open>[[r1, r2], r3]\<close> read as \<open>[r1, r2, r3]\<close>.
\<close>

theorem shape_resolution_keeps_elements:
  "(map_of kvs ''well_data'' = Some (JArr xs) \<longrightarrow>
      new_data_of (JObj kvs) = JArr xs \<and> new_data_of (JArr xs) = JArr xs
      \<and> store_data io (JObj kvs) file = store_data io (JArr xs) file)
   \<and> (\<not> is_list r3 \<longrightarrow>
        fst (snapshot (FileJson (JArr [JArr [r1, r2], r3]))) = Inr [r1, r2, r3])"
proof (intro conjI impI)
  assume wd: "map_of kvs ''well_data'' = Some (JArr xs)"
  then show "new_data_of (JObj kvs) = JArr xs" by simp
  then show "store_data io (JObj kvs) file = store_data io (JArr xs) file"
    by (intro store_data_depends_on_new_data) simp
next
  show "new_data_of (JArr xs) = JArr xs" by simp
next
  assume "\<not> is_list r3"
  then show "fst (snapshot (FileJson (JArr [JArr [r1, r2], r3]))) = Inr [r1, r2, r3]"
    by (cases r3) (simp_all add: snapshot_def)
qed

theorem shape_resolution_keeps_elements_witness:
  "map_of [(''well_data'', JArr [JArr [JObj [], JObj []], JObj []])] ''well_data''
      = Some (JArr [JArr [JObj [], JObj []], JObj []])
   \<and> new_data_of (JObj [(''well_data'', JArr [JArr [JObj [], JObj []], JObj []])])
      = JArr [JArr [JObj [], JObj []], JObj []]
   \<and> \<not> is_list (JObj [])
   \<and> fst (snapshot (FileJson (JArr [JArr [JObj [], JObj []], JObj []])))
      = Inr [JObj [], JObj [], JObj []]"
  using shape_resolution_keeps_elements
    [of "[(''well_data'', JArr [JArr [JObj [], JObj []], JObj []])]"
        "[JArr [JObj [], JObj []], JObj []]" WriteOk NoFile "JObj []" "JObj []" "JObj []"]
  by simp

text \<open>
  The claim as written fails: the payload \<open>{"well_data": [[r1, r2], r3]}\<close> resolves to
  the two-element list \<open>[[r1, r2], r3]\<close>, the forecast count of line 66 raises on the
  nested list, and nothing is stored, while the bare \<open>[r1, r2, r3]\<close> is stored.
\<close>

theorem ingestion_flattening_counterexample:
  "new_data_of (JObj [(''well_data'',
       JArr [JArr [JObj [(''client'', JStr ''W1'')], JObj [(''client'', JStr ''W2'')]],
             JObj [(''client'', JStr ''W3'')]])])
     \<noteq> new_data_of (JArr [JObj [(''client'', JStr ''W1'')], JObj [(''client'', JStr ''W2'')],
             JObj [(''client'', JStr ''W3'')]])
   \<and> store_data WriteOk (JObj [(''well_data'',
       JArr [JArr [JObj [(''client'', JStr ''W1'')], JObj [(''client'', JStr ''W2'')]],
             JObj [(''client'', JStr ''W3'')]])]) (FileJson (JArr []))
     = ([Received 2, ReceiveFailed AttributeError], FileJson (JArr []))
   \<and> store_data WriteOk (JArr [JObj [(''client'', JStr ''W1'')], JObj [(''client'', JStr ''W2'')],
             JObj [(''client'', JStr ''W3'')]]) (FileJson (JArr []))
     = ([Received 3], FileJson (JArr [JObj [(''client'', JStr ''W1'')],
           JObj [(''client'', JStr ''W2'')], JObj [(''client'', JStr ''W3'')]]))"
  by (simp add: store_data_def merge_def merge_read_def merge_write_def)

text \<open>
  Claim C4, as the code has it. The shape is resolved in this order: an object with a
  \<open>well_data\<close> key yields the value under that key, whatever its type (so a sequence
  there is the record list); otherwise an array yields itself; every other value, which
  is neither an array nor an object with that key, yields the one-element list holding it.
\<close>

theorem shape_priority:
  "(map_of kvs ''well_data'' = Some v \<longrightarrow> new_data_of (JObj kvs) = v)
   \<and> (\<not> has_well_data (JArr xs) \<and> new_data_of (JArr xs) = JArr xs)
   \<and> (\<not> has_well_data data \<and> \<not> is_list data \<longrightarrow> new_data_of data = JArr [data])"
  by (cases data) auto

theorem shape_priority_witness:
  "map_of [(''well_data'', JArr [JObj [(''client'', JStr ''W1'')]])] ''well_data''
      = Some (JArr [JObj [(''client'', JStr ''W1'')]])
   \<and> new_data_of (JObj [(''well_data'', JArr [JObj [(''client'', JStr ''W1'')]])])
      = JArr [JObj [(''client'', JStr ''W1'')]]
   \<and> \<not> has_well_data (JObj [(''client'', JStr ''W1'')])
   \<and> \<not> is_list (JObj [(''client'', JStr ''W1'')])
   \<and> new_data_of (JObj [(''client'', JStr ''W1'')]) = JArr [JObj [(''client'', JStr ''W1'')]]"
  using shape_priority
    [of "[(''well_data'', JArr [JObj [(''client'', JStr ''W1'')]])]"
        "JArr [JObj [(''client'', JStr ''W1'')]]" "[]" "JObj [(''client'', JStr ''W1'')]"]
  by simp

text \<open>
  The claim as written fails on an object whose \<open>well_data\<close> is not a sequence: for
  \<open>{"well_data": 5}\<close> the first branch is taken, \<open>new_data\<close> is \<open>5\<close> and not the
  one-element list, and \<open>len\<close> raises.
\<close>

theorem shape_priority_counterexample:
  "new_data_of (JObj [(''well_data'', JInt 5)]) = JInt 5
   \<and> new_data_of (JObj [(''well_data'', JInt 5)]) \<noteq> JArr [JObj [(''well_data'', JInt 5)]]
   \<and> store_data WriteOk (JObj [(''well_data'', JInt 5)]) (FileJson (JArr []))
      = ([ReceiveFailed TypeError], FileJson (JArr []))"
  by (simp add: store_data_def)

text \<open>
  Claim C5. Reading the history leaves the file as it was, and on a stored array it
  returns every entry in order, an entry that is a list being replaced by its members.
\<close>

theorem snapshot_flattens:
  "snd (snapshot file) = file
   \<and> fst (snapshot (FileJson (JArr entries))) = Inr (splice_one_level entries)"
proof
  show "snd (snapshot file) = file"
    by (simp add: snapshot_def split: history_file.splits sum.splits)
  show "fst (snapshot (FileJson (JArr entries))) = Inr (splice_one_level entries)"
    by (simp add: snapshot_def flattened_data_splice)
qed

section \<open>Failures\<close>

lemma forecast_count_dicts:
  "list_all is_dict rs \<Longrightarrow> \<exists>k. forecast_count rs = Inr k"
proof (induction rs)
  case Nil
  show ?case by simp
next
  case (Cons r rs)
  then obtain k where k: "forecast_count rs = Inr k" by auto
  from Cons.prems obtain kvs where "r = JObj kvs" by (cases r) auto
  with k show ?case by simp
qed

lemma store_data_dicts:
  assumes "new_data_of data = JArr rs" and "list_all is_dict rs"
  shows "\<exists>printed. store_data io data (FileJson (JArr h)) =
           (Received (length rs) # printed, snd (merge io (JArr rs) (FileJson (JArr h))))"
proof -
  from assms(2) obtain k where "forecast_count rs = Inr k"
    using forecast_count_dicts by blast
  with assms(1) show ?thesis
    by (cases "merge io (JArr rs) (FileJson (JArr h))"; cases "fst (merge io (JArr rs) (FileJson (JArr h)))")
       (auto simp add: store_data_def)
qed



lemma handle_connection_records:
  assumes "recv_loop decode [] conn = Inr buffer" and "buffer \<noteq> []"
    and "loads buffer = Some data" and "new_data_of data = JArr rs" and "list_all is_dict rs"
  shows "\<exists>printed. handle_connection decode loads WriteOk conn (FileJson (JArr h)) =
           (Received (length rs) # printed, FileJson (JArr (take 1000 (rs @ h))))"
proof -
  from assms(4,5) obtain printed where
    "store_data WriteOk data (FileJson (JArr h)) =
       (Received (length rs) # printed, snd (merge WriteOk (JArr rs) (FileJson (JArr h))))"
    using store_data_dicts [of data rs WriteOk h] by auto
  with assms(1-3) show ?thesis
    by (simp add: handle_connection_def handle_buffer_def merge_on_lists)
qed

lemma listener_Cons_snd:
  "snd (dashboard_listener decode loads (conn # conns) file) =
     snd (dashboard_listener decode loads conns
            (snd (handle_connection decode loads (snd conn) (fst conn) file)))"
  by (simp split: prod.splits)




text \<open>
  Claim C7, as the code has it. A merge whose write fails raises \<open>OSError\<close> inside the
  connection handler, and the handler's generic \<open>except\<close> clause reports it as a
  receive error after the records were announced. When \<open>open\<close> fails the file keeps its
  last written value; when the writing fails after \<open>open\<close> has truncated the file, the
  file is left partial.
\<close>

theorem failed_write:
  "merge OpenFails (JArr new) (FileJson (JArr h)) = (Inl OSError, FileJson (JArr h))
   \<and> merge WriteFails (JArr new) (FileJson (JArr h)) = (Inl OSError, FilePartial)
   \<and> (list_all is_dict new \<and> io \<noteq> WriteOk \<longrightarrow>
        (\<exists>printed. fst (store_data io (JArr new) (FileJson (JArr h))) =
           Received (length new) # printed @ [ReceiveFailed OSError]))"
proof (intro conjI impI)
  show "merge OpenFails (JArr new) (FileJson (JArr h)) = (Inl OSError, FileJson (JArr h))"
    by (simp add: merge_def merge_read_def merge_write_def)
  show "merge WriteFails (JArr new) (FileJson (JArr h)) = (Inl OSError, FilePartial)"
    by (simp add: merge_def merge_read_def merge_write_def)
next
  assume a: "list_all is_dict new \<and> io \<noteq> WriteOk"
  then obtain k where k: "forecast_count new = Inr k"
    using forecast_count_dicts by blast
  from a have "\<exists>f. merge io (JArr new) (FileJson (JArr h)) = (Inl OSError, f)"
    by (cases io) (simp_all add: merge_def merge_read_def merge_write_def)
  then obtain f where "merge io (JArr new) (FileJson (JArr h)) = (Inl OSError, f)" ..
  with k have "fst (store_data io (JArr new) (FileJson (JArr h))) =
      Received (length new) # (if 0 < k then [Forecasts k] else []) @ [ReceiveFailed OSError]"
    by (simp add: store_data_def)
  then show "\<exists>printed. fst (store_data io (JArr new) (FileJson (JArr h))) =
           Received (length new) # printed @ [ReceiveFailed OSError]" by blast
qed

theorem failed_write_witness:
  "list_all is_dict [JObj [(''forecast'', JBool True)]] \<and> OpenFails \<noteq> WriteOk
   \<and> merge OpenFails (JArr [JObj [(''forecast'', JBool True)]]) (FileJson (JArr [JObj []]))
       = (Inl OSError, FileJson (JArr [JObj []]))
   \<and> (\<exists>printed. fst (store_data OpenFails (JArr [JObj [(''forecast'', JBool True)]]) (FileJson (JArr [JObj []])))
         = Received (length [JObj [(''forecast'', JBool True)]]) # printed @ [ReceiveFailed OSError])"
  using failed_write [of "[JObj [(''forecast'', JBool True)]]" "[JObj []]" OpenFails]
  by simp

text \<open>
  The claim as written fails: a write that fails after the file was opened leaves
  neither the last written history nor the new one, and the next read of the file
  raises.
\<close>

theorem failed_write_counterexample:
  "merge WriteFails (JArr [JObj [(''client'', JStr ''W2'')]]) (FileJson (JArr [JObj [(''client'', JStr ''W1'')]]))
     = (Inl OSError, FilePartial)
   \<and> FilePartial \<noteq> FileJson (JArr [JObj [(''client'', JStr ''W1'')]])
   \<and> store_data WriteFails (JArr [JObj [(''client'', JStr ''W2'')]])
        (FileJson (JArr [JObj [(''client'', JStr ''W1'')]]))
     = ([Received 1, ReceiveFailed OSError], FilePartial)
   \<and> snapshot FilePartial = (Inl JSONDecodeError, FilePartial)"
  by (simp add: store_data_def merge_def merge_read_def merge_write_def snapshot_def)

section \<open>Reset and the order of file accesses\<close>

lemma step_read_write:
  "disk (run [MergeRead new_data, MergeWrite io] \<lparr>disk = file, pending = p\<rparr>) =
     (case merge_read new_data file of Inl e \<Rightarrow> file | Inr history \<Rightarrow> snd (merge io new_data file))"
  by (simp add: merge_def split: sum.splits)



section \<open>Merges through the accept loop\<close>

lemma merge_all_singles:
  "length h \<le> 1000 \<Longrightarrow>
   merge_all (map (\<lambda>r. [r]) rs) (FileJson (JArr h)) = FileJson (JArr (take 1000 (rev rs @ h)))"
proof (induction rs arbitrary: h)
  case Nil
  then show ?case by simp
next
  case (Cons r rs)
  have "merge_all (map (\<lambda>r. [r]) (r # rs)) (FileJson (JArr h)) =
        merge_all (map (\<lambda>r. [r]) rs) (FileJson (JArr (take 1000 (r # h))))"
    by (simp add: merge_on_lists)
  also have "\<dots> = FileJson (JArr (take 1000 (rev rs @ take 1000 (r # h))))"
    by (rule Cons.IH) simp
  also have "take 1000 (rev rs @ take 1000 (r # h)) = take 1000 (rev rs @ r # h)"
    by (rule take_append_take)
  also have "rev rs @ r # h = rev (r # rs) @ h"
    by simp
  finally show ?case .
qed

lemma listener_single_records:
  assumes "list_all2 (\<lambda>conn r. snd conn = WriteOk \<and> is_dict r
              \<and> (\<exists>buffer data. recv_loop decode [] (fst conn) = Inr buffer \<and> buffer \<noteq> []
                    \<and> loads buffer = Some data \<and> new_data_of data = JArr [r])) conns rs"
    and "length h \<le> 1000"
  shows "snd (dashboard_listener decode loads conns (FileJson (JArr h))) =
           FileJson (JArr (take 1000 (rev rs @ h)))"
  using assms
proof (induction conns rs arbitrary: h rule: list_all2_induct)
  case Nil
  then show ?case by simp
next
  case (Cons conn conns r rs)
  from Cons.hyps(1) obtain buffer data where
    c: "snd conn = WriteOk" "is_dict r" "recv_loop decode [] (fst conn) = Inr buffer"
       "buffer \<noteq> []" "loads buffer = Some data" "new_data_of data = JArr [r]"
    by blast
  from c obtain printed where
    "handle_connection decode loads WriteOk (fst conn) (FileJson (JArr h)) =
       (Received (length [r]) # printed, FileJson (JArr (take 1000 ([r] @ h))))"
    using handle_connection_records [of decode "fst conn" buffer loads data "[r]" h] by auto
  then have hc: "handle_connection decode loads (snd conn) (fst conn) (FileJson (JArr h)) =
       (Received 1 # printed, FileJson (JArr (take 1000 (r # h))))"
    using c(1) by simp
  have "snd (dashboard_listener decode loads (conn # conns) (FileJson (JArr h))) =
       snd (dashboard_listener decode loads conns (FileJson (JArr (take 1000 (r # h)))))"
    by (simp only: listener_Cons_snd hc snd_conv)
  also have "\<dots> = FileJson (JArr (take 1000 (rev rs @ take 1000 (r # h))))"
    by (rule Cons.IH) simp
  also have "take 1000 (rev rs @ take 1000 (r # h)) = take 1000 (rev rs @ r # h)"
    by (rule take_append_take)
  also have "rev rs @ r # h = rev (r # rs) @ h"
    by simp
  finally show ?case .
qed

text \<open>
  Claim C9. The accept loop serves the connections one at a time, in the order in which
  \<open>accept\<close> returns them, whatever that order is. For K connections that each bring one
  record, the file after the loop is the file after the K merges applied one after the
  other in that order; when K is within the capacity of 1000 it holds exactly the K
  records, newest first, none lost; in general it holds the newest 1000 of them.
\<close>

theorem serialized_single_merges:
  assumes "list_all2 (\<lambda>conn r. snd conn = WriteOk \<and> is_dict r
              \<and> (\<exists>buffer data. recv_loop decode [] (fst conn) = Inr buffer \<and> buffer \<noteq> []
                    \<and> loads buffer = Some data \<and> new_data_of data = JArr [r])) conns rs"
  shows "snd (dashboard_listener decode loads conns (FileJson (JArr []))) =
           merge_all (map (\<lambda>r. [r]) rs) (FileJson (JArr []))
    \<and> (length conns \<le> 1000 \<longrightarrow>
         snd (dashboard_listener decode loads conns (FileJson (JArr []))) = FileJson (JArr (rev rs))
         \<and> length (rev rs) = length conns)
    \<and> snd (dashboard_listener decode loads conns (FileJson (JArr []))) =
         FileJson (JArr (take 1000 (rev rs)))"
proof -
  have len: "length conns = length rs"
    using assms by (rule list_all2_lengthD)
  have l: "snd (dashboard_listener decode loads conns (FileJson (JArr []))) =
      FileJson (JArr (take 1000 (rev rs @ [])))"
    using assms by (rule listener_single_records) simp
  have m: "merge_all (map (\<lambda>r. [r]) rs) (FileJson (JArr [])) = FileJson (JArr (take 1000 (rev rs @ [])))"
    by (rule merge_all_singles) simp
  from l m show ?thesis by (simp add: len)
qed

theorem serialized_single_merges_witness:
  "list_all2 (\<lambda>conn r. snd conn = WriteOk \<and> is_dict r
       \<and> (\<exists>buffer data.
             recv_loop (map_of [(''[{}]'', ''[{}]''), (''{\"a\": 1}'', ''{\"a\": 1}'')]) [] (fst conn) = Inr buffer
           \<and> buffer \<noteq> []
           \<and> map_of [(''[{}]'', JArr [JObj []]), (''{\"a\": 1}'', JObj [(''a'', JInt 1)])] buffer = Some data
           \<and> new_data_of data = JArr [r]))
     [([Data ''[{}]''], WriteOk), ([Data ''{\"a\": 1}''], WriteOk)] [JObj [], JObj [(''a'', JInt 1)]]
   \<and> length [([Data ''[{}]''], WriteOk), ([Data ''{\"a\": 1}''], WriteOk)] \<le> 1000
   \<and> snd (dashboard_listener (map_of [(''[{}]'', ''[{}]''), (''{\"a\": 1}'', ''{\"a\": 1}'')])
        (map_of [(''[{}]'', JArr [JObj []]), (''{\"a\": 1}'', JObj [(''a'', JInt 1)])])
        [([Data ''[{}]''], WriteOk), ([Data ''{\"a\": 1}''], WriteOk)] (FileJson (JArr [])))
      = FileJson (JArr [JObj [(''a'', JInt 1)], JObj []])
   \<and> length [JObj [(''a'', JInt 1)], JObj []] = 2"
  using serialized_single_merges
    [of "map_of [(''[{}]'', ''[{}]''), (''{\"a\": 1}'', ''{\"a\": 1}'')]"
        "map_of [(''[{}]'', JArr [JObj []]), (''{\"a\": 1}'', JObj [(''a'', JInt 1)])]"
        "[([Data ''[{}]''], WriteOk), ([Data ''{\"a\": 1}''], WriteOk)]"
        "[JObj [], JObj [(''a'', JInt 1)]]"]
  by (simp add: handle_connection_def handle_buffer_def store_data_def merge_def merge_read_def
        merge_write_def)

section \<open>Capacity against flattening\<close>

lemma snapshot_after_merge:
  "fst (snapshot (snd (merge WriteOk (JArr batch) (FileJson (JArr entries))))) =
     Inr (splice_one_level (take 1000 (batch @ entries)))"
  by (simp add: merge_on_lists snapshot_def flattened_data_splice)

lemma splice_replicate_pairs:
  "splice_one_level (replicate n (JArr [r, r])) = concat (replicate n [r, r])"
  by (simp add: splice_one_level_def)

lemma length_concat_replicate_pairs: "length (concat (replicate n [r, r'])) = 2 * n"
  by (induction n) simp_all

text \<open>
  Claim C10. A merge keeps the first 1000 entries of the batch followed by the stored
  array, counting entries as they are stored, and the read flattens what the merge has
  kept. So on a stored array of 1000 entries that are each a list of two records, the
  merge of one record evicts one entry and keeps 1000, and the read then returns 1999
  records.
\<close>

theorem cap_before_flattening:
  "merge WriteOk (JArr batch) (FileJson (JArr entries)) =
     (Inr (), FileJson (JArr (take 1000 (batch @ entries))))
   \<and> length (take 1000 (batch @ entries)) = min (length batch + length entries) 1000
   \<and> fst (snapshot (snd (merge WriteOk (JArr batch) (FileJson (JArr entries))))) =
       Inr (splice_one_level (take 1000 (batch @ entries)))
   \<and> length (replicate 1000 (JArr [r, r])) \<le> 1000
   \<and> merge WriteOk (JArr [JObj kvs]) (FileJson (JArr (replicate 1000 (JArr [r, r])))) =
       (Inr (), FileJson (JArr (JObj kvs # replicate 999 (JArr [r, r]))))
   \<and> fst (snapshot (FileJson (JArr (JObj kvs # replicate 999 (JArr [r, r]))))) =
       Inr (JObj kvs # concat (replicate 999 [r, r]))
   \<and> length (JObj kvs # concat (replicate 999 [r, r])) = 1999"
proof (intro conjI)
  show "merge WriteOk (JArr batch) (FileJson (JArr entries)) =
     (Inr (), FileJson (JArr (take 1000 (batch @ entries))))"
    by (rule merge_on_lists)
  show "length (take 1000 (batch @ entries)) = min (length batch + length entries) 1000"
    by (simp add: min.commute)
  show "fst (snapshot (snd (merge WriteOk (JArr batch) (FileJson (JArr entries))))) =
       Inr (splice_one_level (take 1000 (batch @ entries)))"
    by (rule snapshot_after_merge)
  show "length (replicate 1000 (JArr [r, r])) \<le> 1000"
    by simp
  show "merge WriteOk (JArr [JObj kvs]) (FileJson (JArr (replicate 1000 (JArr [r, r])))) =
       (Inr (), FileJson (JArr (JObj kvs # replicate 999 (JArr [r, r]))))"
    by (simp add: merge_on_lists)
  have "splice_one_level (JObj kvs # replicate 999 (JArr [r, r])) =
      JObj kvs # concat (replicate 999 [r, r])"
    using splice_replicate_pairs [of 999 r] by (simp add: splice_one_level_def)
  then show "fst (snapshot (FileJson (JArr (JObj kvs # replicate 999 (JArr [r, r]))))) =
       Inr (JObj kvs # concat (replicate 999 [r, r]))"
    by (simp add: snapshot_def flattened_data_splice)
  show "length (JObj kvs # concat (replicate 999 [r, r])) = 1999"
    by (simp add: length_concat_replicate_pairs del: length_concat)
qed

end
